theory Spec2Isabelle
  imports Main "HOL-Library.Char_ord" "HOL-Library.List_Lexorder"
begin

section \<open>Go runtime values used by package otel\<close>

text \<open>
  \<^verbatim>\<open>time.Duration\<close> counts nanoseconds; \<^verbatim>\<open>time.Second\<close> is \<open>10^9\<close> of them.
  The only arithmetic of the package on durations is \<^verbatim>\<open>2 * time.Second\<close>,
  \<^verbatim>\<open>5 * time.Second\<close> and \<^verbatim>\<open>30 * time.Second\<close>, far from the 64-bit bound.
\<close>

type_synonym Duration = int

definition Second :: Duration where
  "Second = 1000000000"

text \<open>
  A \<^verbatim>\<open>context.Context\<close> is only ever forwarded to the SDK; the package never looks
  inside it.
\<close>

datatype Context = Background | TODO

text \<open>
  Go errors. \<^verbatim>\<open>fmt.Errorf("prefix: %w", err)\<close> builds a wrapping error: its message is
  the prefix followed by the message of \<^verbatim>\<open>err\<close>, and \<^verbatim>\<open>errors.Unwrap\<close> gives
  \<^verbatim>\<open>err\<close> back.
\<close>

datatype error = errorString string | wrapError string error

fun Error :: "error \<Rightarrow> string" where
  "Error (errorString s) = s"
| "Error (wrapError msg err) = msg"

fun Unwrap :: "error \<Rightarrow> error option" where
  "Unwrap (errorString s) = None"
| "Unwrap (wrapError msg err) = Some err"

definition Errorf_w :: "string \<Rightarrow> error \<Rightarrow> error" where
  "Errorf_w prefix err = wrapError (prefix @ Error err) err"

text \<open>
  The process environment is a dictionary from variable names to values.
  \<^verbatim>\<open>os.Getenv\<close> returns the value of the variable, which is empty when the variable
  is not present.
\<close>

type_synonym environ = "string \<rightharpoonup> string"

definition Getenv :: "environ \<Rightarrow> string \<Rightarrow> string" where
  "Getenv env key = (case env key of None \<Rightarrow> [] | Some v \<Rightarrow> v)"

text \<open>An \<^verbatim>\<open>io.Writer\<close> is a handle on a sink; a nil interface value is \<open>None\<close>.\<close>

datatype io_Writer = os_Stdout | os_Stderr | bytes_Buffer nat

section \<open>The data model of package otel\<close>

text \<open>
  \<^verbatim>\<open>type OutputType int\<close> with \<^verbatim>\<open>IO = iota\<close> and \<^verbatim>\<open>GRPC\<close> after it. Any other
  integer is a well-typed \<^verbatim>\<open>OutputType\<close> too.
\<close>

type_synonym OutputType = int

definition IO :: OutputType where
  "IO = 0"

definition GRPC :: OutputType where
  "GRPC = 1"

record Config =
  ServiceName :: string
  ServiceVersion :: string
  ServiceInstanceID :: string
  Writer :: "io_Writer option"
  APIKey :: string
  URL :: string

text \<open>
  The interface \<^verbatim>\<open>Exporter\<close> has two implementations, \<^verbatim>\<open>*ioOutput\<close> and
  \<^verbatim>\<open>*grpcOutput\<close>, each a struct embedding a \<^verbatim>\<open>*Config\<close> that may be nil.
\<close>

datatype Exporter = ioOutput "Config option" | grpcOutput "Config option"

section \<open>NewExporter and NewENVConfig\<close>

text \<open>
  The \<^verbatim>\<open>switch\<close> of \<^verbatim>\<open>NewExporter\<close> has the two cases \<^verbatim>\<open>IO\<close> and \<^verbatim>\<open>GRPC\<close>
  and falls through to \<^verbatim>\<open>return nil\<close>; the nil interface value is \<open>None\<close>.
\<close>

definition NewExporter :: "OutputType \<Rightarrow> Config option \<Rightarrow> Exporter option" where
  "NewExporter outputType c =
     (if outputType = IO then Some (ioOutput c)
      else if outputType = GRPC then Some (grpcOutput c)
      else None)"

definition NewENVConfig :: "environ \<Rightarrow> Config" where
  "NewENVConfig env =
     \<lparr> ServiceName = Getenv env ''OTEL_SERVICE_NAME'',
       ServiceVersion = Getenv env ''OTEL_SERVICE_VERSION'',
       ServiceInstanceID = Getenv env ''OTEL_SERVICE_ID'',
       Writer = None,
       APIKey = Getenv env ''OTEL_GRPC_API_KEY'',
       URL = Getenv env ''OTEL_GRPC_URL'' \<rparr>"

text \<open>The environment that \<^verbatim>\<open>setEnv\<close> of the package's tests installs.\<close>

definition setEnv :: environ where
  "setEnv =
     [''OTEL_SERVICE_NAME'' \<mapsto> ''sampleServiceName'',
      ''OTEL_SERVICE_VERSION'' \<mapsto> ''v1.0.0.0'',
      ''OTEL_SERVICE_ID'' \<mapsto> ''sampleServiceID'',
      ''OTEL_GRPC_API_KEY'' \<mapsto> ''sampleApiKey'',
      ''OTEL_GRPC_URL'' \<mapsto> ''otlp.nr-data.net:4317'']"

definition env_vars :: "string list" where
  "env_vars =
     [''OTEL_SERVICE_NAME'', ''OTEL_SERVICE_VERSION'', ''OTEL_SERVICE_ID'',
      ''OTEL_GRPC_API_KEY'', ''OTEL_GRPC_URL'']"

section \<open>The telemetry SDK as the package sees it\<close>

text \<open>
  An attribute is a key with a typed value. \<^verbatim>\<open>Key.String(v)\<close> pairs the key with
  the string value \<open>v\<close>, whatever \<open>v\<close> is. An attribute is valid when its key is
  not empty and its value has a type.
\<close>

datatype Value = INVALID | BOOL bool | INT64 int | STRING string

type_synonym KeyValue = "string \<times> Value"

definition Key_String :: "string \<Rightarrow> string \<Rightarrow> KeyValue" where
  "Key_String k v = (k, STRING v)"

definition Valid :: "KeyValue \<Rightarrow> bool" where
  "Valid kv = (fst kv \<noteq> [] \<and> snd kv \<noteq> INVALID)"

text \<open>The constants of \<^verbatim>\<open>semconv/v1.4.0\<close> that \<^verbatim>\<open>Config.resource\<close> names.\<close>

definition SchemaURL :: string where
  "SchemaURL = ''https://opentelemetry.io/schemas/1.4.0''"

definition ServiceNameKey :: string where
  "ServiceNameKey = ''service.name''"

definition ServiceVersionKey :: string where
  "ServiceVersionKey = ''service.version''"

definition ServiceInstanceIDKey :: string where
  "ServiceInstanceIDKey = ''service.instance.id''"

text \<open>
  A resource is its attribute slice, as \<^verbatim>\<open>Attributes()\<close> returns it, and its schema
  URL. A nil \<^verbatim>\<open>*Resource\<close> is \<open>None\<close>; its \<^verbatim>\<open>Attributes()\<close> are empty.
\<close>

record Resource =
  attrs :: "KeyValue list"
  schemaURL :: string

definition Attributes :: "Resource option \<Rightarrow> KeyValue list" where
  "Attributes r = (case r of None \<Rightarrow> [] | Some x \<Rightarrow> attrs x)"

text \<open>
  The options of the SDK are data handed over by the package: each option constructor
  of the SDK is a constructor here, and \<^verbatim>\<open>NewClient\<close> and \<^verbatim>\<open>NewTracerProvider\<close>
  keep the options they were given, in the order given.
\<close>

datatype CertPool = CertPool "string list"

datatype TransportCredentials = NewClientTLSFromCert "CertPool option" string

datatype DialOption = WithBlock | WithReturnConnectionError

datatype otlptracegrpc_Option =
    WithEndpoint string
  | WithTLSCredentials TransportCredentials
  | WithReconnectionPeriod Duration
  | WithDialOption "DialOption list"
  | WithTimeout Duration
  | WithHeaders "string \<rightharpoonup> string"
  | WithCompressor string

datatype Client = NewClient "otlptracegrpc_Option list"

datatype stdouttrace_Option = WithWriter "io_Writer option"

datatype SpanExporter = stdouttrace_Exporter "io_Writer option" | otlptrace_Exporter Client

datatype Sampler = AlwaysSample | NeverSample

datatype BatchSpanProcessorOption =
    WithBatchTimeout Duration
  | WithExportTimeout Duration
  | WithMaxQueueSize int
  | WithMaxExportBatchSize int

datatype TracerProviderOption =
    WithBatcher "SpanExporter option" "BatchSpanProcessorOption list"
  | WithSampler Sampler
  | WithResource "Resource option"

datatype TracerProvider = NewTracerProvider "TracerProviderOption list"

text \<open>
  The SDK functions that can fail, or whose result the package does not determine, are
  parameters of the model. Each returns what its Go signature returns: a pointer or
  interface that may be nil, and an error that may be nil. They are assumed to return.
\<close>

record SDK =
  resource_New :: "Context \<Rightarrow> Resource option \<times> error option"
  resource_NewWithAttributes :: "string \<Rightarrow> KeyValue list \<Rightarrow> Resource"
  resource_Merge :: "Resource option \<Rightarrow> Resource option \<Rightarrow> Resource option \<times> error option"
  stdouttrace_New :: "stdouttrace_Option list \<Rightarrow> SpanExporter option \<times> error option"
  otlptrace_New :: "Context \<Rightarrow> Client \<Rightarrow> SpanExporter option \<times> error option"

text \<open>
  The process-wide default provider that \<^verbatim>\<open>otel.SetTracerProvider\<close> writes; \<open>None\<close>
  while nothing has been installed.
\<close>

record world =
  globalTracerProvider :: "TracerProvider option"

definition SetTracerProvider :: "TracerProvider \<Rightarrow> world \<Rightarrow> world" where
  "SetTracerProvider tp w = w\<lparr>globalTracerProvider := Some tp\<rparr>"

text \<open>A call either panics (a nil pointer is dereferenced) or returns.\<close>

datatype 'a outcome = Panic | Return 'a

section \<open>Config.resource and the two pipelines\<close>

text \<open>
  \<^verbatim>\<open>Config.resource\<close>: the error of \<^verbatim>\<open>resource.New\<close> is dropped, the default
  resource is merged with the three identity attributes (name, version, instance id,
  in the order of the source), and an error of the merge is wrapped and returned with a
  nil resource.
\<close>

definition identity_attributes :: "Config \<Rightarrow> KeyValue list" where
  "identity_attributes c =
     [Key_String ServiceNameKey (ServiceName c),
      Key_String ServiceVersionKey (ServiceVersion c),
      Key_String ServiceInstanceIDKey (ServiceInstanceID c)]"

definition Config_resource :: "SDK \<Rightarrow> Config \<Rightarrow> Context \<Rightarrow> Resource option \<times> error option" where
  "Config_resource sdk c ctx =
     (let (defaultResource, _) = resource_New sdk ctx;
          (resource, err) =
             resource_Merge sdk defaultResource
               (Some (resource_NewWithAttributes sdk SchemaURL (identity_attributes c)))
      in case err of
           Some e \<Rightarrow> (None, Some (Errorf_w ''could not create resource: '' e))
         | None \<Rightarrow> (resource, None))"

type_synonym pipeline_result = "((TracerProvider option \<times> error option) \<times> world) outcome"

definition ioOutput_ExportPipeline ::
  "SDK \<Rightarrow> Config option \<Rightarrow> Context \<Rightarrow> world \<Rightarrow> pipeline_result" where
  "ioOutput_ExportPipeline sdk cfg ctx w =
     (case cfg of
        None \<Rightarrow> Panic
      | Some c \<Rightarrow>
          (let (exp, err) = stdouttrace_New sdk [WithWriter (Writer c)]
           in case err of
                Some e \<Rightarrow> Return ((None, Some (Errorf_w ''could not create exporter: '' e)), w)
              | None \<Rightarrow>
                  (let (resource, _) = Config_resource sdk c ctx;
                       tracerProvider =
                         NewTracerProvider [WithBatcher exp [], WithResource resource]
                   in Return ((Some tracerProvider, None),
                              SetTracerProvider tracerProvider w))))"

definition clientOpts :: "Config \<Rightarrow> otlptracegrpc_Option list" where
  "clientOpts c =
     (let headers = [''api-key'' \<mapsto> APIKey c];
          creds = NewClientTLSFromCert None []
      in [WithEndpoint (URL c),
          WithTLSCredentials creds,
          WithReconnectionPeriod (2 * Second),
          WithDialOption [WithBlock],
          WithTimeout (30 * Second),
          WithHeaders headers,
          WithCompressor ''gzip''])"

definition grpcOutput_ExportPipeline ::
  "SDK \<Rightarrow> Config option \<Rightarrow> Context \<Rightarrow> world \<Rightarrow> pipeline_result" where
  "grpcOutput_ExportPipeline sdk cfg ctx w =
     (case cfg of
        None \<Rightarrow> Panic
      | Some c \<Rightarrow>
          (let (otlpExporter, err) = otlptrace_New sdk ctx (NewClient (clientOpts c))
           in case err of
                Some e \<Rightarrow>
                  Return ((None, Some (Errorf_w ''creating OTLP trace exporter: '' e)), w)
              | None \<Rightarrow>
                  (let (resource, _) = Config_resource sdk c ctx;
                       tracerProvider =
                         NewTracerProvider
                           [WithBatcher otlpExporter
                              [WithBatchTimeout (5 * Second),
                               WithExportTimeout (5 * Second),
                               WithMaxQueueSize 10000,
                               WithMaxExportBatchSize 100000],
                            WithSampler AlwaysSample,
                            WithResource resource]
                   in Return ((Some tracerProvider, None),
                              SetTracerProvider tracerProvider w))))"

text \<open>The method call through the interface.\<close>

fun ExportPipeline :: "SDK \<Rightarrow> Exporter \<Rightarrow> Context \<Rightarrow> world \<Rightarrow> pipeline_result" where
  "ExportPipeline sdk (ioOutput cfg) ctx w = ioOutput_ExportPipeline sdk cfg ctx w"
| "ExportPipeline sdk (grpcOutput cfg) ctx w = grpcOutput_ExportPipeline sdk cfg ctx w"

section \<open>What the resource claims assume of the SDK\<close>

text \<open>
  The attribute slice of a resource comes out of an attribute set of the SDK: sorted by
  key, one entry for each key.
\<close>

definition key_sorted :: "KeyValue list \<Rightarrow> bool" where
  "key_sorted kvs = sorted_wrt (<) (map fst kvs)"

text \<open>
  The contract of the three resource functions, as far as the package relies on it:
  \<^item> the default resource is an attribute set;
  \<^item> \<^verbatim>\<open>NewWithAttributes\<close> builds the attribute set of the valid attributes it is
    given, a later value for a key replacing an earlier one;
  \<^item> where \<^verbatim>\<open>Merge(a, b)\<close> returns without an error, it returns a resource holding
    the attributes of both, those of \<open>b\<close> replacing those of \<open>a\<close> on a common key.
  When \<^verbatim>\<open>Merge\<close> fails is left to the SDK.
\<close>

definition resource_contract :: "SDK \<Rightarrow> bool" where
  "resource_contract sdk =
     ((\<forall>ctx. key_sorted (Attributes (fst (resource_New sdk ctx))))
      \<and> (\<forall>url kvs.
            key_sorted (attrs (resource_NewWithAttributes sdk url kvs))
            \<and> map_of (attrs (resource_NewWithAttributes sdk url kvs))
                = map_of (rev (filter Valid kvs)))
      \<and> (\<forall>a b r.
            key_sorted (Attributes a) \<longrightarrow> key_sorted (Attributes b) \<longrightarrow>
            resource_Merge sdk a b = (r, None) \<longrightarrow>
              r \<noteq> None \<and> key_sorted (Attributes r)
              \<and> map_of (Attributes r) = map_of (Attributes a) ++ map_of (Attributes b)))"

text \<open>
  The Go convention on the two adapter constructors: a nil error comes with an adapter
  that is not nil.
\<close>

definition adapter_convention :: "SDK \<Rightarrow> bool" where
  "adapter_convention sdk =
     ((\<forall>opts exp. stdouttrace_New sdk opts = (exp, None) \<longrightarrow> exp \<noteq> None)
      \<and> (\<forall>ctx client exp. otlptrace_New sdk ctx client = (exp, None) \<longrightarrow> exp \<noteq> None))"

text \<open>The three identity keys, to select the identity attributes of a descriptor.\<close>

definition identity_key :: "KeyValue \<Rightarrow> bool" where
  "identity_key kv =
     (fst kv = ServiceNameKey \<or> fst kv = ServiceVersionKey \<or> fst kv = ServiceInstanceIDKey)"

section \<open>A simulated SDK to run the package against\<close>

text \<open>
  An executable stand-in for the SDK, used to run the pipelines on concrete inputs.
  Its attribute sets are kept sorted by insertion; its \<^verbatim>\<open>Merge\<close> fails when both
  resources carry a schema URL and the two differ; its adapters always come up.
\<close>

fun upsert :: "KeyValue \<Rightarrow> KeyValue list \<Rightarrow> KeyValue list" where
  "upsert kv [] = [kv]"
| "upsert kv (x # xs) =
     (if fst kv < fst x then kv # x # xs
      else if fst kv = fst x then kv # xs
      else x # upsert kv xs)"

definition upsert_all :: "KeyValue list \<Rightarrow> KeyValue list \<Rightarrow> KeyValue list" where
  "upsert_all acc kvs = foldl (\<lambda>s kv. upsert kv s) acc kvs"

definition sim_NewWithAttributes :: "string \<Rightarrow> KeyValue list \<Rightarrow> Resource" where
  "sim_NewWithAttributes url kvs = \<lparr> attrs = upsert_all [] (filter Valid kvs), schemaURL = url \<rparr>"

definition sim_Merge ::
  "Resource option \<Rightarrow> Resource option \<Rightarrow> Resource option \<times> error option" where
  "sim_Merge a b =
     (case (a, b) of
        (None, None) \<Rightarrow> (Some \<lparr> attrs = [], schemaURL = [] \<rparr>, None)
      | (None, Some y) \<Rightarrow> (Some y, None)
      | (Some x, None) \<Rightarrow> (Some x, None)
      | (Some x, Some y) \<Rightarrow>
          (if schemaURL x \<noteq> [] \<and> schemaURL y \<noteq> [] \<and> schemaURL x \<noteq> schemaURL y
           then (Some \<lparr> attrs = [], schemaURL = [] \<rparr>,
                 Some (errorString ''cannot merge resource due to conflicting Schema URL''))
           else (Some \<lparr> attrs = upsert_all (attrs x) (attrs y),
                        schemaURL = (if schemaURL x = [] then schemaURL y else schemaURL x) \<rparr>,
                 None)))"

fun sim_stdouttrace_New :: "stdouttrace_Option list \<Rightarrow> SpanExporter option \<times> error option" where
  "sim_stdouttrace_New [] = (Some (stdouttrace_Exporter (Some os_Stdout)), None)"
| "sim_stdouttrace_New [WithWriter wr] = (Some (stdouttrace_Exporter wr), None)"
| "sim_stdouttrace_New (opt # opts) = sim_stdouttrace_New opts"

definition sim_SDK :: "Resource \<Rightarrow> SDK" where
  "sim_SDK defaultResource =
     \<lparr> resource_New = (\<lambda>ctx. (Some defaultResource, None)),
       resource_NewWithAttributes = sim_NewWithAttributes,
       resource_Merge = sim_Merge,
       stdouttrace_New = sim_stdouttrace_New,
       otlptrace_New = (\<lambda>ctx client. (Some (otlptrace_Exporter client), None)) \<rparr>"

text \<open>Default resources: an empty one, one with ambient attributes, one of another schema.\<close>

definition empty_resource :: Resource where
  "empty_resource = \<lparr> attrs = [], schemaURL = [] \<rparr>"

definition ambient_resource :: Resource where
  "ambient_resource =
     \<lparr> attrs = [(''host.name'', STRING ''box''), (''telemetry.sdk.language'', STRING ''go'')],
       schemaURL = [] \<rparr>"

definition foreign_resource :: Resource where
  "foreign_resource =
     \<lparr> attrs = [(''host.name'', STRING ''box'')],
       schemaURL = ''https://opentelemetry.io/schemas/1.12.0'' \<rparr>"

text \<open>Simulated SDKs whose adapter cannot be built.\<close>

definition no_stdout_SDK :: SDK where
  "no_stdout_SDK =
     (sim_SDK empty_resource)
       \<lparr> stdouttrace_New := (\<lambda>opts. (None, Some (errorString ''unusable sink''))) \<rparr>"

definition no_otlp_SDK :: SDK where
  "no_otlp_SDK =
     (sim_SDK empty_resource)
       \<lparr> otlptrace_New := (\<lambda>ctx client. (None, Some (errorString ''context deadline exceeded''))) \<rparr>"

definition w0 :: world where
  "w0 = \<lparr> globalTracerProvider = None \<rparr>"

text \<open>The configuration of the package's tests, with standard output as the sink.\<close>

definition test_config :: Config where
  "test_config = (NewENVConfig setEnv)\<lparr>Writer := Some os_Stdout\<rparr>"

section \<open>The factory on an unknown output kind\<close>

text \<open>
  Claim C2. For every output-kind selector other than \<open>IO\<close> and \<open>GRPC\<close> and every
  configuration pointer (nil included), \<open>NewExporter\<close> returns the nil interface value.
  The function has no error result, reads nothing but its arguments and is total, so
  there is nothing it could return as an error, panic on or wait for.
\<close>

theorem NewExporter_unknown_kind_nil:
  "outputType \<noteq> IO \<Longrightarrow> outputType \<noteq> GRPC \<Longrightarrow> NewExporter outputType c = None"
  by (simp add: NewExporter_def)

theorem NewExporter_unknown_kind_nil_witness:
  "(2::int) \<noteq> IO \<and> (2::int) \<noteq> GRPC
   \<and> NewExporter 2 (Some (NewENVConfig setEnv)) = None
   \<and> NewExporter (- 1) None = None"
proof -
  have a: "(2::int) \<noteq> IO" and b: "(2::int) \<noteq> GRPC"
    by (simp_all add: IO_def GRPC_def)
  have c: "(- 1::int) \<noteq> IO" and d: "(- 1::int) \<noteq> GRPC"
    by (simp_all add: IO_def GRPC_def)
  show ?thesis
    using a b NewExporter_unknown_kind_nil [OF a b, of "Some (NewENVConfig setEnv)"]
      NewExporter_unknown_kind_nil [OF c d, of None]
    by simp
qed

section \<open>The configuration resolver\<close>

text \<open>
  Claim C5. \<open>NewENVConfig\<close> is a total function of the environment alone: it has no
  error result and returns no changed environment. Two environments that agree on the
  five variables \<open>OTEL_SERVICE_NAME\<close>, \<open>OTEL_SERVICE_VERSION\<close>, \<open>OTEL_SERVICE_ID\<close>,
  \<open>OTEL_GRPC_API_KEY\<close> and \<open>OTEL_GRPC_URL\<close> give the same configuration, so nothing
  else is read. Each of the five fields is the value of its variable, taken as it is
  (no validation), and the empty string when the variable is absent. The sink
  reference is nil.
\<close>

theorem NewENVConfig_reads_five_variables:
  "((\<forall>k \<in> set env_vars. env k = env' k) \<longrightarrow> NewENVConfig env = NewENVConfig env')
   \<and> ServiceName (NewENVConfig env)
       = (case env ''OTEL_SERVICE_NAME'' of None \<Rightarrow> [] | Some v \<Rightarrow> v)
   \<and> ServiceVersion (NewENVConfig env)
       = (case env ''OTEL_SERVICE_VERSION'' of None \<Rightarrow> [] | Some v \<Rightarrow> v)
   \<and> ServiceInstanceID (NewENVConfig env)
       = (case env ''OTEL_SERVICE_ID'' of None \<Rightarrow> [] | Some v \<Rightarrow> v)
   \<and> APIKey (NewENVConfig env)
       = (case env ''OTEL_GRPC_API_KEY'' of None \<Rightarrow> [] | Some v \<Rightarrow> v)
   \<and> URL (NewENVConfig env)
       = (case env ''OTEL_GRPC_URL'' of None \<Rightarrow> [] | Some v \<Rightarrow> v)
   \<and> Writer (NewENVConfig env) = None"
  by (simp add: NewENVConfig_def Getenv_def env_vars_def)

theorem NewENVConfig_reads_five_variables_witness:
  "NewENVConfig setEnv = NewENVConfig (setEnv(''HOME'' \<mapsto> ''/root''))
   \<and> ServiceName (NewENVConfig setEnv) = ''sampleServiceName''
   \<and> URL (NewENVConfig Map.empty) = []"
proof -
  have h: "\<forall>k \<in> set env_vars. setEnv k = (setEnv(''HOME'' \<mapsto> ''/root'')) k"
    by (simp add: env_vars_def)
  have n: "setEnv ''OTEL_SERVICE_NAME'' = Some ''sampleServiceName''"
    by (simp add: setEnv_def)
  note t = NewENVConfig_reads_five_variables [of setEnv "setEnv(''HOME'' \<mapsto> ''/root'')"]
  from t h have e: "NewENVConfig setEnv = NewENVConfig (setEnv(''HOME'' \<mapsto> ''/root''))"
    by blast
  from t n have s: "ServiceName (NewENVConfig setEnv) = ''sampleServiceName''"
    by simp
  have u: "URL (NewENVConfig Map.empty) = []"
    using NewENVConfig_reads_five_variables [of Map.empty Map.empty] by simp
  from e s u show ?thesis
    by blast
qed

section \<open>The two pipelines\<close>

lemma io_fails:
  "stdouttrace_New sdk [WithWriter (Writer c)] = (exp, Some e) \<Longrightarrow>
   ioOutput_ExportPipeline sdk (Some c) ctx w
     = Return ((None, Some (Errorf_w ''could not create exporter: '' e)), w)"
  by (simp add: ioOutput_ExportPipeline_def)

lemma io_returns:
  "stdouttrace_New sdk [WithWriter (Writer c)] = (exp, None) \<Longrightarrow>
   ioOutput_ExportPipeline sdk (Some c) ctx w
     = Return ((Some (NewTracerProvider
                   [WithBatcher exp [], WithResource (fst (Config_resource sdk c ctx))]),
                None),
               SetTracerProvider
                 (NewTracerProvider
                   [WithBatcher exp [], WithResource (fst (Config_resource sdk c ctx))]) w)"
  by (simp add: ioOutput_ExportPipeline_def Let_def split: prod.splits)

lemma grpc_fails:
  "otlptrace_New sdk ctx (NewClient (clientOpts c)) = (exp, Some e) \<Longrightarrow>
   grpcOutput_ExportPipeline sdk (Some c) ctx w
     = Return ((None, Some (Errorf_w ''creating OTLP trace exporter: '' e)), w)"
  by (simp add: grpcOutput_ExportPipeline_def)

lemma grpc_returns:
  "otlptrace_New sdk ctx (NewClient (clientOpts c)) = (exp, None) \<Longrightarrow>
   grpcOutput_ExportPipeline sdk (Some c) ctx w
     = Return ((Some (NewTracerProvider
                   [WithBatcher exp
                      [WithBatchTimeout 5000000000, WithExportTimeout 5000000000,
                       WithMaxQueueSize 10000, WithMaxExportBatchSize 100000],
                    WithSampler AlwaysSample,
                    WithResource (fst (Config_resource sdk c ctx))]),
                None),
               SetTracerProvider
                 (NewTracerProvider
                   [WithBatcher exp
                      [WithBatchTimeout 5000000000, WithExportTimeout 5000000000,
                       WithMaxQueueSize 10000, WithMaxExportBatchSize 100000],
                    WithSampler AlwaysSample,
                    WithResource (fst (Config_resource sdk c ctx))]) w)"
  by (simp add: grpcOutput_ExportPipeline_def Let_def Second_def split: prod.splits)

lemma clientOpts_list:
  "clientOpts c =
     [WithEndpoint (URL c), WithTLSCredentials (NewClientTLSFromCert None []),
      WithReconnectionPeriod 2000000000, WithDialOption [WithBlock],
      WithTimeout 30000000000, WithHeaders [''api-key'' \<mapsto> APIKey c],
      WithCompressor ''gzip'']"
  by (simp add: clientOpts_def Second_def)

text \<open>
  Claim C3. For every configuration, the options of the transport client that the
  remote-RPC pipeline builds hold exactly one credentials option, TLS with a nil
  certificate pool (the default trust) and no server-name override; exactly one
  reconnection period, 2 seconds; exactly one timeout, 30 seconds; exactly one
  compressor, gzip; and exactly one header map, with the single entry \<open>api-key\<close> set
  to the configuration's API key. Whenever the pipeline returns a provider, it is the
  one assembled from a batcher over the adapter built on that client, with batch
  timeout 5 seconds, export timeout 5 seconds, queue size 10000 and export batch size
  100000, the always-sample sampler, and a resource. Durations are in nanoseconds.
\<close>

theorem grpc_pipeline_fixed_policies:
  "(WithTLSCredentials cr \<in> set (clientOpts c) \<longleftrightarrow> cr = NewClientTLSFromCert None [])
   \<and> (WithReconnectionPeriod p \<in> set (clientOpts c) \<longleftrightarrow> p = 2000000000)
   \<and> (WithTimeout t \<in> set (clientOpts c) \<longleftrightarrow> t = 30000000000)
   \<and> (WithCompressor z \<in> set (clientOpts c) \<longleftrightarrow> z = ''gzip'')
   \<and> (WithHeaders h \<in> set (clientOpts c) \<longleftrightarrow> h = [''api-key'' \<mapsto> APIKey c])
   \<and> (grpcOutput_ExportPipeline sdk (Some c) ctx w = Return ((Some tp, None), w') \<longrightarrow>
        (\<exists>res. tp = NewTracerProvider
           [WithBatcher (fst (otlptrace_New sdk ctx (NewClient (clientOpts c))))
              [WithBatchTimeout 5000000000, WithExportTimeout 5000000000,
               WithMaxQueueSize 10000, WithMaxExportBatchSize 100000],
            WithSampler AlwaysSample,
            WithResource res]))"
proof -
  have prov: "grpcOutput_ExportPipeline sdk (Some c) ctx w = Return ((Some tp, None), w') \<longrightarrow>
        (\<exists>res. tp = NewTracerProvider
           [WithBatcher (fst (otlptrace_New sdk ctx (NewClient (clientOpts c))))
              [WithBatchTimeout 5000000000, WithExportTimeout 5000000000,
               WithMaxQueueSize 10000, WithMaxExportBatchSize 100000],
            WithSampler AlwaysSample,
            WithResource res])"
  proof (cases "otlptrace_New sdk ctx (NewClient (clientOpts c))")
    case (Pair exp err)
    show ?thesis
    proof (cases err)
      case None
      with Pair show ?thesis
        using grpc_returns [of sdk ctx c exp w] by auto
    next
      case (Some e)
      with Pair show ?thesis
        using grpc_fails [of sdk ctx c exp e w] by simp
    qed
  qed
  have opts: "(WithTLSCredentials cr \<in> set (clientOpts c) \<longleftrightarrow> cr = NewClientTLSFromCert None [])
   \<and> (WithReconnectionPeriod p \<in> set (clientOpts c) \<longleftrightarrow> p = 2000000000)
   \<and> (WithTimeout t \<in> set (clientOpts c) \<longleftrightarrow> t = 30000000000)
   \<and> (WithCompressor z \<in> set (clientOpts c) \<longleftrightarrow> z = ''gzip'')
   \<and> (WithHeaders h \<in> set (clientOpts c) \<longleftrightarrow> h = [''api-key'' \<mapsto> APIKey c])"
    unfolding clientOpts_list by simp
  from opts prov show ?thesis by blast
qed



lemma sim_otlptrace_New:
  "otlptrace_New (sim_SDK d) ctx cl = (Some (otlptrace_Exporter cl), None)"
  by (simp add: sim_SDK_def)

lemma sim_stdouttrace_New:
  "stdouttrace_New (sim_SDK d) [WithWriter wr] = (Some (stdouttrace_Exporter wr), None)"
  by (simp add: sim_SDK_def)

lemma no_stdout_New:
  "stdouttrace_New no_stdout_SDK opts = (None, Some (errorString ''unusable sink''))"
  by (simp add: no_stdout_SDK_def)

lemma no_otlp_New:
  "otlptrace_New no_otlp_SDK ctx cl = (None, Some (errorString ''context deadline exceeded''))"
  by (simp add: no_otlp_SDK_def)

theorem grpc_pipeline_fixed_policies_witness:
  "\<exists>tp w'. grpcOutput_ExportPipeline (sim_SDK empty_resource) (Some test_config) TODO w0
             = Return ((Some tp, None), w')
     \<and> (\<exists>res. tp = NewTracerProvider
           [WithBatcher (Some (otlptrace_Exporter (NewClient (clientOpts test_config))))
              [WithBatchTimeout 5000000000, WithExportTimeout 5000000000,
               WithMaxQueueSize 10000, WithMaxExportBatchSize 100000],
            WithSampler AlwaysSample,
            WithResource res])"
proof -
  note run = grpc_returns
    [OF sim_otlptrace_New, where d1 = empty_resource and ctx = TODO and c = test_config and w = w0]
  note t = grpc_pipeline_fixed_policies
    [where sdk = "sim_SDK empty_resource" and c = test_config and ctx = TODO and w = w0]
  from run t show ?thesis
    by (simp add: sim_otlptrace_New)
qed

lemma ExportPipeline_cases:
  assumes "ExportPipeline sdk e ctx w = Return (r, w')"
  shows "(\<exists>err. r = (None, Some err) \<and> w' = w)
         \<or> (\<exists>tp. r = (Some tp, None) \<and> w' = SetTracerProvider tp w)"
proof (cases e)
  case (ioOutput cfg)
  show ?thesis
  proof (cases cfg)
    case None
    with ioOutput assms show ?thesis
      by (simp add: ioOutput_ExportPipeline_def)
  next
    case (Some c)
    obtain exp err where a: "stdouttrace_New sdk [WithWriter (Writer c)] = (exp, err)"
      by (cases "stdouttrace_New sdk [WithWriter (Writer c)]")
    show ?thesis
    proof (cases err)
      case None
      with a Some ioOutput assms show ?thesis
        using io_returns [of sdk c exp ctx w] by auto
    next
      case (Some x)
      with a \<open>cfg = Some c\<close> ioOutput assms show ?thesis
        using io_fails [of sdk c exp x ctx w] by auto
    qed
  qed
next
  case (grpcOutput cfg)
  show ?thesis
  proof (cases cfg)
    case None
    with grpcOutput assms show ?thesis
      by (simp add: grpcOutput_ExportPipeline_def)
  next
    case (Some c)
    obtain exp err where a: "otlptrace_New sdk ctx (NewClient (clientOpts c)) = (exp, err)"
      by (cases "otlptrace_New sdk ctx (NewClient (clientOpts c))")
    show ?thesis
    proof (cases err)
      case None
      with a Some grpcOutput assms show ?thesis
        using grpc_returns [of sdk ctx c exp w] by auto
    next
      case (Some x)
      with a \<open>cfg = Some c\<close> grpcOutput assms show ?thesis
        using grpc_fails [of sdk ctx c exp x w] by auto
    qed
  qed
qed

text \<open>
  Claim C6. For both implementations of \<open>Exporter\<close>: when \<open>ExportPipeline\<close> returns a
  provider and a nil error, the state it leaves is the state before with that same
  provider installed as the process-wide default.
\<close>

theorem ExportPipeline_installs_returned_provider:
  "ExportPipeline sdk e ctx w = Return ((Some tp, None), w') \<Longrightarrow>
   w' = SetTracerProvider tp w \<and> globalTracerProvider w' = Some tp"
  using ExportPipeline_cases [of sdk e ctx w "(Some tp, None)" w']
  by (auto simp add: SetTracerProvider_def)

theorem ExportPipeline_installs_returned_provider_witness:
  "(\<exists>tp w'. ExportPipeline (sim_SDK empty_resource) (ioOutput (Some test_config)) TODO w0
              = Return ((Some tp, None), w')
            \<and> globalTracerProvider w0 = None \<and> globalTracerProvider w' = Some tp)
   \<and> (\<exists>tp w'. ExportPipeline (sim_SDK empty_resource) (grpcOutput (Some test_config)) TODO w0
              = Return ((Some tp, None), w')
            \<and> globalTracerProvider w' = Some tp)"
proof -
  note io = io_returns
    [OF sim_stdouttrace_New, where d1 = empty_resource and ctx = TODO and c = test_config
      and w = w0]
  note grpc = grpc_returns
    [OF sim_otlptrace_New, where d1 = empty_resource and ctx = TODO and c = test_config
      and w = w0]
  have a: "\<exists>tp w'. ExportPipeline (sim_SDK empty_resource) (ioOutput (Some test_config)) TODO w0
              = Return ((Some tp, None), w')
            \<and> globalTracerProvider w0 = None \<and> globalTracerProvider w' = Some tp"
    using io ExportPipeline_installs_returned_provider
      [where sdk = "sim_SDK empty_resource" and e = "ioOutput (Some test_config)"
        and ctx = TODO and w = w0]
    by (simp add: w0_def)
  have b: "\<exists>tp w'. ExportPipeline (sim_SDK empty_resource) (grpcOutput (Some test_config)) TODO w0
              = Return ((Some tp, None), w')
            \<and> globalTracerProvider w' = Some tp"
    using grpc ExportPipeline_installs_returned_provider
      [where sdk = "sim_SDK empty_resource" and e = "grpcOutput (Some test_config)"
        and ctx = TODO and w = w0]
    by simp
  from a b show ?thesis by blast
qed

text \<open>
  Claim C9. When \<open>ExportPipeline\<close> returns an error, the handle is nil and the
  process-wide state is the one before the call; and a call that changed the state
  returned a nil error and installed the provider it returned.
\<close>

theorem failed_ExportPipeline_keeps_global:
  "(ExportPipeline sdk e ctx w = Return ((tp, Some err), w') \<longrightarrow> tp = None \<and> w' = w)
   \<and> (ExportPipeline sdk e ctx w = Return ((tp, err'), w') \<and> w' \<noteq> w \<longrightarrow>
        err' = None \<and> (\<exists>p. tp = Some p \<and> w' = SetTracerProvider p w))"
  using ExportPipeline_cases [of sdk e ctx w "(tp, Some err)" w']
    ExportPipeline_cases [of sdk e ctx w "(tp, err')" w']
  by auto

theorem failed_ExportPipeline_keeps_global_witness:
  "(\<exists>err. ExportPipeline no_stdout_SDK (ioOutput (Some test_config)) TODO w0
            = Return ((None, Some err), w0))
   \<and> (\<exists>err. ExportPipeline no_otlp_SDK (grpcOutput (Some test_config)) TODO w0
            = Return ((None, Some err), w0))"
proof -
  note io = io_fails [OF no_stdout_New, where c = test_config and ctx = TODO and w = w0]
  note grpc = grpc_fails [OF no_otlp_New, where c = test_config and ctx = TODO and w = w0]
  have a: "\<exists>err. ExportPipeline no_stdout_SDK (ioOutput (Some test_config)) TODO w0
            = Return ((None, Some err), w0)"
    using io failed_ExportPipeline_keeps_global
      [where sdk = no_stdout_SDK and e = "ioOutput (Some test_config)" and ctx = TODO
        and w = w0 and w' = w0]
    by simp
  have b: "\<exists>err. ExportPipeline no_otlp_SDK (grpcOutput (Some test_config)) TODO w0
            = Return ((None, Some err), w0)"
    using grpc failed_ExportPipeline_keeps_global
      [where sdk = no_otlp_SDK and e = "grpcOutput (Some test_config)" and ctx = TODO
        and w = w0 and w' = w0]
    by simp
  from a b show ?thesis by blast
qed


lemma Config_resource_merge_fails:
  "snd (resource_Merge sdk (fst (resource_New sdk ctx))
          (Some (resource_NewWithAttributes sdk SchemaURL (identity_attributes c)))) = Some me
   \<Longrightarrow> Config_resource sdk c ctx = (None, Some (Errorf_w ''could not create resource: '' me))"
  by (simp add: Config_resource_def case_prod_beta)

lemma Config_resource_merge_returns:
  "resource_Merge sdk (fst (resource_New sdk ctx))
          (Some (resource_NewWithAttributes sdk SchemaURL (identity_attributes c))) = (r, None)
   \<Longrightarrow> Config_resource sdk c ctx = (r, None)"
  by (simp add: Config_resource_def case_prod_beta)

lemma sim_foreign_merge_fails:
  "snd (resource_Merge (sim_SDK foreign_resource)
          (fst (resource_New (sim_SDK foreign_resource) ctx))
          (Some (resource_NewWithAttributes (sim_SDK foreign_resource) SchemaURL
                   (identity_attributes c))))
     = Some (errorString ''cannot merge resource due to conflicting Schema URL'')"
  by (simp add: sim_SDK_def sim_Merge_def sim_NewWithAttributes_def foreign_resource_def
      SchemaURL_def)

text \<open>
  Claim C7. Suppose the merge step of \<open>Config.resource\<close> returns an error. Then
  \<open>Config.resource\<close> returns it wrapped, with a nil resource, and neither pipeline
  passes it on: when the adapter was built, the pipeline returns a provider carrying a
  nil resource, with a nil error, and installs it; and any error a pipeline does return
  is the wrapped error of its adapter constructor.
\<close>

theorem ExportPipeline_swallows_merge_error:
  "snd (resource_Merge sdk (fst (resource_New sdk ctx))
          (Some (resource_NewWithAttributes sdk SchemaURL (identity_attributes c)))) = Some me
   \<Longrightarrow>
   Config_resource sdk c ctx = (None, Some (Errorf_w ''could not create resource: '' me))
   \<and> (stdouttrace_New sdk [WithWriter (Writer c)] = (exp, None) \<longrightarrow>
        ioOutput_ExportPipeline sdk (Some c) ctx w
          = Return ((Some (NewTracerProvider [WithBatcher exp [], WithResource None]), None),
                    SetTracerProvider
                      (NewTracerProvider [WithBatcher exp [], WithResource None]) w))
   \<and> (otlptrace_New sdk ctx (NewClient (clientOpts c)) = (exp', None) \<longrightarrow>
        (\<exists>tp. grpcOutput_ExportPipeline sdk (Some c) ctx w
                = Return ((Some tp, None), SetTracerProvider tp w)
              \<and> (\<exists>opts. tp = NewTracerProvider (opts @ [WithResource None]))))
   \<and> (ioOutput_ExportPipeline sdk (Some c) ctx w = Return ((tp, Some err), w') \<longrightarrow>
        (\<exists>cause. snd (stdouttrace_New sdk [WithWriter (Writer c)]) = Some cause
                 \<and> err = Errorf_w ''could not create exporter: '' cause))
   \<and> (grpcOutput_ExportPipeline sdk (Some c) ctx w = Return ((tp, Some err), w') \<longrightarrow>
        (\<exists>cause. snd (otlptrace_New sdk ctx (NewClient (clientOpts c))) = Some cause
                 \<and> err = Errorf_w ''creating OTLP trace exporter: '' cause))"
proof -
  assume m: "snd (resource_Merge sdk (fst (resource_New sdk ctx))
          (Some (resource_NewWithAttributes sdk SchemaURL (identity_attributes c)))) = Some me"
  note r = Config_resource_merge_fails [OF m]
  have io: "stdouttrace_New sdk [WithWriter (Writer c)] = (exp, None) \<longrightarrow>
        ioOutput_ExportPipeline sdk (Some c) ctx w
          = Return ((Some (NewTracerProvider [WithBatcher exp [], WithResource None]), None),
                    SetTracerProvider
                      (NewTracerProvider [WithBatcher exp [], WithResource None]) w)"
    using io_returns [of sdk c exp ctx w] r by simp
  have grpc: "otlptrace_New sdk ctx (NewClient (clientOpts c)) = (exp', None) \<longrightarrow>
        (\<exists>tp. grpcOutput_ExportPipeline sdk (Some c) ctx w
                = Return ((Some tp, None), SetTracerProvider tp w)
              \<and> (\<exists>opts. tp = NewTracerProvider (opts @ [WithResource None])))"
  proof
    assume a: "otlptrace_New sdk ctx (NewClient (clientOpts c)) = (exp', None)"
    have "\<exists>opts. [WithBatcher exp'
                      [WithBatchTimeout 5000000000, WithExportTimeout 5000000000,
                       WithMaxQueueSize 10000, WithMaxExportBatchSize 100000],
                    WithSampler AlwaysSample,
                    WithResource None] = opts @ [WithResource None]"
      by simp
    with grpc_returns [OF a, of w] r
    show "\<exists>tp. grpcOutput_ExportPipeline sdk (Some c) ctx w
                = Return ((Some tp, None), SetTracerProvider tp w)
              \<and> (\<exists>opts. tp = NewTracerProvider (opts @ [WithResource None]))"
      by simp
  qed
  have ioe: "ioOutput_ExportPipeline sdk (Some c) ctx w = Return ((tp, Some err), w') \<longrightarrow>
        (\<exists>cause. snd (stdouttrace_New sdk [WithWriter (Writer c)]) = Some cause
                 \<and> err = Errorf_w ''could not create exporter: '' cause)"
  proof (cases "stdouttrace_New sdk [WithWriter (Writer c)]")
    case (Pair x y)
    then show ?thesis
      using io_returns [of sdk c x ctx w] io_fails [of sdk c x _ ctx w]
      by (cases y) auto
  qed
  have grpce: "grpcOutput_ExportPipeline sdk (Some c) ctx w = Return ((tp, Some err), w') \<longrightarrow>
        (\<exists>cause. snd (otlptrace_New sdk ctx (NewClient (clientOpts c))) = Some cause
                 \<and> err = Errorf_w ''creating OTLP trace exporter: '' cause)"
  proof (cases "otlptrace_New sdk ctx (NewClient (clientOpts c))")
    case (Pair x y)
    then show ?thesis
      using grpc_returns [of sdk ctx c x w] grpc_fails [of sdk ctx c x _ w]
      by (cases y) auto
  qed
  from r io grpc ioe grpce show ?thesis by blast
qed

theorem ExportPipeline_swallows_merge_error_witness:
  "Config_resource (sim_SDK foreign_resource) test_config TODO
     = (None, Some (wrapError
          ''could not create resource: cannot merge resource due to conflicting Schema URL''
          (errorString ''cannot merge resource due to conflicting Schema URL'')))
   \<and> ioOutput_ExportPipeline (sim_SDK foreign_resource) (Some test_config) TODO w0
     = Return ((Some (NewTracerProvider
                        [WithBatcher (Some (stdouttrace_Exporter (Some os_Stdout))) [],
                         WithResource None]), None),
               \<lparr> globalTracerProvider = Some (NewTracerProvider
                        [WithBatcher (Some (stdouttrace_Exporter (Some os_Stdout))) [],
                         WithResource None]) \<rparr>)"
proof -
  note t = ExportPipeline_swallows_merge_error
    [OF sim_foreign_merge_fails [of TODO test_config], where w = w0
      and exp = "Some (stdouttrace_Exporter (Some os_Stdout))"]
  have wr: "Writer test_config = Some os_Stdout"
    by (simp add: test_config_def)
  from t show ?thesis
    by (simp add: Errorf_w_def sim_stdouttrace_New wr SetTracerProvider_def w0_def)
qed

text \<open>
  Claim C8. The result of the local-stream pipeline does not depend on the API key and
  the endpoint of the configuration, and the result of the remote-RPC pipeline does not
  depend on the sink reference. So the local-stream pipeline with empty API key and
  endpoint returns a provider whenever its adapter constructor returns no error for the
  sink, and the remote-RPC pipeline with a nil sink returns a provider whenever its
  adapter constructor returns no error for the client.
\<close>

theorem pipeline_ignores_irrelevant_fields:
  "ioOutput_ExportPipeline sdk (Some (c\<lparr>APIKey := k, URL := u\<rparr>)) ctx w
     = ioOutput_ExportPipeline sdk (Some c) ctx w
   \<and> grpcOutput_ExportPipeline sdk (Some (c\<lparr>Writer := wr\<rparr>)) ctx w
     = grpcOutput_ExportPipeline sdk (Some c) ctx w
   \<and> (snd (stdouttrace_New sdk [WithWriter (Writer c)]) = None \<longrightarrow>
        (\<exists>tp w'. ioOutput_ExportPipeline sdk (Some (c\<lparr>APIKey := [], URL := []\<rparr>)) ctx w
                   = Return ((Some tp, None), w')))
   \<and> (snd (otlptrace_New sdk ctx (NewClient (clientOpts c))) = None \<longrightarrow>
        (\<exists>tp w'. grpcOutput_ExportPipeline sdk (Some (c\<lparr>Writer := None\<rparr>)) ctx w
                   = Return ((Some tp, None), w')))"
proof -
  have io: "ioOutput_ExportPipeline sdk (Some (c\<lparr>APIKey := k', URL := u'\<rparr>)) ctx w
     = ioOutput_ExportPipeline sdk (Some c) ctx w" for k' u'
    by (simp add: ioOutput_ExportPipeline_def Config_resource_def identity_attributes_def)
  have grpc: "grpcOutput_ExportPipeline sdk (Some (c\<lparr>Writer := wr'\<rparr>)) ctx w
     = grpcOutput_ExportPipeline sdk (Some c) ctx w" for wr'
    by (simp add: grpcOutput_ExportPipeline_def Config_resource_def identity_attributes_def
        clientOpts_def)
  have ios: "snd (stdouttrace_New sdk [WithWriter (Writer c)]) = None \<longrightarrow>
        (\<exists>tp w'. ioOutput_ExportPipeline sdk (Some c) ctx w = Return ((Some tp, None), w'))"
    using io_returns [of sdk c _ ctx w]
    by (cases "stdouttrace_New sdk [WithWriter (Writer c)]") auto
  have grpcs: "snd (otlptrace_New sdk ctx (NewClient (clientOpts c))) = None \<longrightarrow>
        (\<exists>tp w'. grpcOutput_ExportPipeline sdk (Some c) ctx w = Return ((Some tp, None), w'))"
    using grpc_returns [of sdk ctx c _ w]
    by (cases "otlptrace_New sdk ctx (NewClient (clientOpts c))") auto
  from io grpc ios grpcs show ?thesis
    by simp
qed

theorem pipeline_ignores_irrelevant_fields_witness:
  "(\<exists>tp w'. ioOutput_ExportPipeline (sim_SDK empty_resource)
               (Some (test_config\<lparr>APIKey := [], URL := []\<rparr>)) TODO w0
             = Return ((Some tp, None), w'))
   \<and> (\<exists>tp w'. grpcOutput_ExportPipeline (sim_SDK empty_resource)
               (Some (test_config\<lparr>Writer := None\<rparr>)) TODO w0
             = Return ((Some tp, None), w'))"
proof -
  have a: "snd (stdouttrace_New (sim_SDK empty_resource) [WithWriter (Writer test_config)]) = None"
    by (simp add: sim_stdouttrace_New)
  have b: "snd (otlptrace_New (sim_SDK empty_resource) TODO (NewClient (clientOpts test_config)))
             = None"
    by (simp add: sim_otlptrace_New)
  from a b pipeline_ignores_irrelevant_fields
    [where sdk = "sim_SDK empty_resource" and c = test_config and ctx = TODO and w = w0]
  show ?thesis
    by blast
qed


section \<open>The resource descriptor\<close>

lemma identity_keys_ordered:
  "ServiceInstanceIDKey < ServiceNameKey" "ServiceNameKey < ServiceVersionKey"
  "ServiceInstanceIDKey < ServiceVersionKey"
  by (simp_all add: ServiceInstanceIDKey_def ServiceNameKey_def ServiceVersionKey_def)

lemma identity_keys_distinct:
  "ServiceInstanceIDKey \<noteq> ServiceNameKey" "ServiceNameKey \<noteq> ServiceVersionKey"
  "ServiceInstanceIDKey \<noteq> ServiceVersionKey"
  "ServiceNameKey \<noteq> ServiceInstanceIDKey" "ServiceVersionKey \<noteq> ServiceNameKey"
  "ServiceVersionKey \<noteq> ServiceInstanceIDKey"
  by (simp_all add: ServiceInstanceIDKey_def ServiceNameKey_def ServiceVersionKey_def)

lemma key_sorted_distinct: "key_sorted xs \<Longrightarrow> distinct (map fst xs)"
  unfolding key_sorted_def by (simp add: strict_sorted_iff)

lemma key_sorted_unique:
  assumes "key_sorted xs" and "key_sorted ys" and "map_of xs = map_of ys"
  shows "xs = ys"
proof -
  have "set (map fst xs) = dom (map_of xs)" "set (map fst ys) = dom (map_of ys)"
    by (simp_all add: dom_map_of_conv_image_fst)
  with assms(3) have "set (map fst ys) = set (map fst xs)"
    by simp
  with assms(1,2) have keys: "map fst ys = map fst xs"
    unfolding key_sorted_def by (rule strict_sorted_equal)
  have "map_of (zip (map fst xs) (map snd xs)) = map_of (zip (map fst xs) (map snd ys))"
    using assms(3) keys by (metis zip_map_fst_snd)
  then have "map snd xs = map snd ys"
    using key_sorted_distinct [OF assms(1)] keys
    by (intro map_of_zip_inject [of _ "map fst xs"]) (simp_all, metis length_map)
  with keys show ?thesis
    by (metis zip_map_fst_snd)
qed

lemma key_sorted_filter: "key_sorted xs \<Longrightarrow> key_sorted (filter P xs)"
  unfolding key_sorted_def by (simp add: sorted_wrt_map sorted_wrt_filter)

lemma map_of_filter_key:
  "map_of (filter (\<lambda>kv. P (fst kv)) xs) k = (if P k then map_of xs k else None)"
  by (induction xs) auto


lemma map_of_identity_attributes:
  "map_of (rev (filter Valid (identity_attributes c)))
     = [ServiceInstanceIDKey \<mapsto> STRING (ServiceInstanceID c),
        ServiceVersionKey \<mapsto> STRING (ServiceVersion c),
        ServiceNameKey \<mapsto> STRING (ServiceName c)]"
  by (simp add: identity_attributes_def Key_String_def Valid_def
      ServiceInstanceIDKey_def ServiceNameKey_def ServiceVersionKey_def fun_eq_iff)

lemma Config_resource_under_contract:
  assumes "resource_contract sdk"
  shows "(\<exists>r. Config_resource sdk c ctx = (Some r, None)
            \<and> key_sorted (attrs r)
            \<and> map_of (attrs r) ServiceInstanceIDKey = Some (STRING (ServiceInstanceID c))
            \<and> map_of (attrs r) ServiceNameKey = Some (STRING (ServiceName c))
            \<and> map_of (attrs r) ServiceVersionKey = Some (STRING (ServiceVersion c)))
         \<or> (\<exists>e. Config_resource sdk c ctx
                   = (None, Some (Errorf_w ''could not create resource: '' e)))"
proof -
  define d where "d = fst (resource_New sdk ctx)"
  define n where "n = resource_NewWithAttributes sdk SchemaURL (identity_attributes c)"
  obtain r err where m: "resource_Merge sdk d (Some n) = (r, err)"
    by (cases "resource_Merge sdk d (Some n)")
  show ?thesis
  proof (cases err)
    case (Some e)
    with m have "Config_resource sdk c ctx
                   = (None, Some (Errorf_w ''could not create resource: '' e))"
      using Config_resource_merge_fails [of sdk ctx c e] by (simp add: d_def n_def)
    then show ?thesis by blast
  next
    case None
    with m have res: "Config_resource sdk c ctx = (r, None)"
      using Config_resource_merge_returns [of sdk ctx c r] by (simp add: d_def n_def)
    from assms have sd: "key_sorted (Attributes d)"
      by (simp add: resource_contract_def d_def)
    from assms have sn: "key_sorted (Attributes (Some n))"
      and mn: "map_of (attrs n) = map_of (rev (filter Valid (identity_attributes c)))"
      by (simp_all add: resource_contract_def n_def Attributes_def)
    from assms sd sn m None
    have "r \<noteq> None \<and> key_sorted (Attributes r)
            \<and> map_of (Attributes r) = map_of (Attributes d) ++ map_of (Attributes (Some n))"
      unfolding resource_contract_def by blast
    then obtain x where x: "r = Some x" and sx: "key_sorted (attrs x)"
      and mx: "map_of (attrs x) = map_of (Attributes d) ++ map_of (attrs n)"
      by (auto simp add: Attributes_def)
    from mx mn have
      "map_of (attrs x) ServiceInstanceIDKey = Some (STRING (ServiceInstanceID c))"
      "map_of (attrs x) ServiceNameKey = Some (STRING (ServiceName c))"
      "map_of (attrs x) ServiceVersionKey = Some (STRING (ServiceVersion c))"
      by (simp_all add: map_of_identity_attributes map_add_def identity_keys_distinct)
    with res x sx show ?thesis by blast
  qed
qed

subsection \<open>The simulated SDK keeps the contract\<close>

lemma map_of_upsert: "map_of (upsert kv xs) = (map_of xs)(fst kv \<mapsto> snd kv)"
  by (induction xs) (auto simp add: fun_eq_iff)

lemma set_upsert: "fst ` set (upsert kv xs) = insert (fst kv) (fst ` set xs)"
  by (induction xs) auto

lemma key_sorted_upsert: "key_sorted xs \<Longrightarrow> key_sorted (upsert kv xs)"
proof (induction xs)
  case Nil
  then show ?case by (simp add: key_sorted_def)
next
  case (Cons x xs)
  then have tl: "key_sorted (upsert kv xs)" and lt: "\<forall>k \<in> fst ` set xs. fst x < k"
    by (auto simp add: key_sorted_def)
  show ?case
  proof (cases "fst kv < fst x")
    case True
    with Cons.prems show ?thesis
      by (auto simp add: key_sorted_def)
  next
    case False
    show ?thesis
    proof (cases "fst kv = fst x")
      case True
      with Cons.prems show ?thesis
        by (auto simp add: key_sorted_def)
    next
      case ne: False
      with False have "fst x < fst kv"
        by simp
      with lt have "\<forall>k \<in> fst ` set (upsert kv xs). fst x < k"
        unfolding set_upsert by simp
      with tl False ne show ?thesis
        by (simp add: key_sorted_def)
    qed
  qed
qed

lemma key_sorted_Nil: "key_sorted []"
  by (simp add: key_sorted_def)

lemma key_sorted_upsert_all: "key_sorted acc \<Longrightarrow> key_sorted (upsert_all acc kvs)"
  unfolding upsert_all_def
  by (induction kvs arbitrary: acc) (simp_all add: key_sorted_upsert)

lemma map_of_upsert_all: "map_of (upsert_all acc kvs) = map_of acc ++ map_of (rev kvs)"
proof (induction kvs arbitrary: acc)
  case Nil
  then show ?case by (simp add: upsert_all_def)
next
  case (Cons kv kvs)
  have "upsert_all acc (kv # kvs) = upsert_all (upsert kv acc) kvs"
    by (simp add: upsert_all_def)
  then have "map_of (upsert_all acc (kv # kvs))
               = (map_of acc)(fst kv \<mapsto> snd kv) ++ map_of (rev kvs)"
    by (simp only: Cons map_of_upsert)
  also have "\<dots> = map_of acc ++ map_of (rev (kv # kvs))"
    by (cases kv) (simp add: map_add_def fun_eq_iff split: option.splits)
  finally show ?case .
qed

lemma map_of_rev_distinct: "distinct (map fst xs) \<Longrightarrow> map_of (rev xs) = map_of xs"
proof (induction xs)
  case Nil
  then show ?case by simp
next
  case (Cons x xs)
  then have "map_of xs (fst x) = None"
    by (simp add: map_of_eq_None_iff)
  with Cons show ?case
    by (cases x) (auto simp add: map_add_def fun_eq_iff split: option.splits)
qed

lemma sim_SDK_contract:
  assumes "key_sorted (attrs d)"
  shows "resource_contract (sim_SDK d)"
proof -
  have new: "key_sorted (Attributes (fst (resource_New (sim_SDK d) ctx)))" for ctx
    using assms by (simp add: sim_SDK_def Attributes_def)
  have nwa: "key_sorted (attrs (resource_NewWithAttributes (sim_SDK d) url kvs))
            \<and> map_of (attrs (resource_NewWithAttributes (sim_SDK d) url kvs))
                = map_of (rev (filter Valid kvs))" for url kvs
    by (simp add: sim_SDK_def sim_NewWithAttributes_def key_sorted_upsert_all
        key_sorted_Nil map_of_upsert_all)
  have merge: "r \<noteq> None \<and> key_sorted (Attributes r)
              \<and> map_of (Attributes r) = map_of (Attributes a) ++ map_of (Attributes b)"
    if sa: "key_sorted (Attributes a)" and sb: "key_sorted (Attributes b)"
      and m: "resource_Merge (sim_SDK d) a b = (r, None)" for a b r
  proof (cases a)
    case None
    with m sb show ?thesis
      by (cases b) (auto simp add: sim_SDK_def sim_Merge_def Attributes_def key_sorted_def)
  next
    case (Some x)
    show ?thesis
    proof (cases b)
      case None
      with Some m sa show ?thesis
        by (auto simp add: sim_SDK_def sim_Merge_def Attributes_def)
    next
      case (Some y)
      from sb Some have "map_of (rev (attrs y)) = map_of (attrs y)"
        by (simp add: Attributes_def map_of_rev_distinct key_sorted_distinct)
      with Some \<open>a = Some x\<close> m sa show ?thesis
        by (auto simp add: sim_SDK_def sim_Merge_def Attributes_def key_sorted_upsert_all
            map_of_upsert_all split: if_splits)
    qed
  qed
  from new nwa merge show ?thesis
    unfolding resource_contract_def by blast
qed

lemma key_sorted_ambient: "key_sorted (attrs ambient_resource)"
  by (simp add: ambient_resource_def key_sorted_def)

lemma key_sorted_empty: "key_sorted (attrs empty_resource)"
  by (simp add: empty_resource_def key_sorted_def)

lemmas sim_resource_defs =
  Config_resource_def sim_SDK_def sim_Merge_def sim_NewWithAttributes_def upsert_all_def
  identity_attributes_def Key_String_def Valid_def
  ServiceInstanceIDKey_def ServiceNameKey_def ServiceVersionKey_def SchemaURL_def

lemma sim_ambient_resource:
  "Config_resource (sim_SDK ambient_resource) test_config TODO
     = (Some \<lparr> attrs = [(''host.name'', STRING ''box''),
                         (''service.instance.id'', STRING ''sampleServiceID''),
                         (''service.name'', STRING ''sampleServiceName''),
                         (''service.version'', STRING ''v1.0.0.0''),
                         (''telemetry.sdk.language'', STRING ''go'')],
                schemaURL = ''https://opentelemetry.io/schemas/1.4.0'' \<rparr>, None)"
  by (simp add: sim_resource_defs ambient_resource_def test_config_def NewENVConfig_def
      Getenv_def setEnv_def)

lemma sim_empty_config_resource:
  "Config_resource (sim_SDK empty_resource) (NewENVConfig Map.empty) TODO
     = (Some \<lparr> attrs = [(''service.instance.id'', STRING []),
                         (''service.name'', STRING []),
                         (''service.version'', STRING [])],
                schemaURL = ''https://opentelemetry.io/schemas/1.4.0'' \<rparr>, None)"
  by (simp add: sim_resource_defs empty_resource_def NewENVConfig_def Getenv_def)

subsection \<open>The identity attributes in a descriptor\<close>

text \<open>
  Claim C1. Let the SDK keep its contract on resources. For every configuration with
  service name A, service version B and service instance id C, \<open>Config.resource\<close>
  either returns a descriptor or returns the wrapped error of the merge. In a
  descriptor, the entries under the three identity keys are exactly three: the
  instance id with value C, then the name with value A, then the version with value B,
  in this order among whatever other entries the default resource brings. The source
  hands them over as name, version, instance id; the order is that of the keys.
\<close>

theorem Config_resource_identity_attributes:
  "resource_contract sdk \<Longrightarrow>
   (\<exists>r. Config_resource sdk c ctx = (Some r, None)
        \<and> filter identity_key (attrs r)
            = [(ServiceInstanceIDKey, STRING (ServiceInstanceID c)),
               (ServiceNameKey, STRING (ServiceName c)),
               (ServiceVersionKey, STRING (ServiceVersion c))])
   \<or> (\<exists>e. Config_resource sdk c ctx
             = (None, Some (Errorf_w ''could not create resource: '' e)))"
proof -
  assume "resource_contract sdk"
  from Config_resource_under_contract [OF this, of c ctx] show ?thesis
  proof (elim disjE exE conjE)
    fix r
    assume res: "Config_resource sdk c ctx = (Some r, None)"
      and sr: "key_sorted (attrs r)"
      and i: "map_of (attrs r) ServiceInstanceIDKey = Some (STRING (ServiceInstanceID c))"
      and n: "map_of (attrs r) ServiceNameKey = Some (STRING (ServiceName c))"
      and v: "map_of (attrs r) ServiceVersionKey = Some (STRING (ServiceVersion c))"
    let ?ys = "[(ServiceInstanceIDKey, STRING (ServiceInstanceID c)),
               (ServiceNameKey, STRING (ServiceName c)),
               (ServiceVersionKey, STRING (ServiceVersion c))]"
    let ?P = "\<lambda>k. k = ServiceNameKey \<or> k = ServiceVersionKey \<or> k = ServiceInstanceIDKey"
    have f: "filter identity_key (attrs r) = filter (\<lambda>kv. ?P (fst kv)) (attrs r)"
      by (rule filter_cong) (simp_all add: identity_key_def)
    have s1: "key_sorted (filter identity_key (attrs r))"
      using sr by (rule key_sorted_filter)
    have s2: "key_sorted ?ys"
      by (simp add: key_sorted_def identity_keys_ordered)
    have "map_of (filter identity_key (attrs r)) k = map_of ?ys k" for k
      using i n v
      by (simp add: f map_of_filter_key [where P = ?P] identity_keys_distinct)
    then have "map_of (filter identity_key (attrs r)) = map_of ?ys"
      by (rule ext)
    with s1 s2 have "filter identity_key (attrs r) = ?ys"
      by (rule key_sorted_unique)
    with res show ?thesis by blast
  next
    fix e
    assume "Config_resource sdk c ctx
              = (None, Some (Errorf_w ''could not create resource: '' e))"
    then show ?thesis by blast
  qed
qed

theorem Config_resource_identity_attributes_witness:
  "\<exists>r. Config_resource (sim_SDK ambient_resource) test_config TODO = (Some r, None)
      \<and> length (attrs r) = 5
      \<and> filter identity_key (attrs r)
          = [(''service.instance.id'', STRING ''sampleServiceID''),
             (''service.name'', STRING ''sampleServiceName''),
             (''service.version'', STRING ''v1.0.0.0'')]"
proof -
  have c: "ServiceInstanceID test_config = ''sampleServiceID''"
    "ServiceName test_config = ''sampleServiceName''"
    "ServiceVersion test_config = ''v1.0.0.0''"
    by (simp_all add: test_config_def NewENVConfig_def Getenv_def setEnv_def)
  from Config_resource_identity_attributes
    [OF sim_SDK_contract [OF key_sorted_ambient], of test_config TODO]
  show ?thesis
    by (simp add: sim_ambient_resource c ServiceInstanceIDKey_def ServiceNameKey_def
        ServiceVersionKey_def)
qed

text \<open>
  Claim C10. For every configuration, \<open>Config.resource\<close> hands the SDK three
  attributes, under the keys of service name, service version and service instance id
  in this order, and all three are valid whatever the fields hold, the empty string
  included. Where the SDK keeps its contract on resources and \<open>Config.resource\<close>
  returns without an error, the descriptor holds each of the three keys with the
  string value of its field: an empty field gives an attribute whose value is the empty
  string.
\<close>

theorem Config_resource_keeps_empty_fields:
  "map fst (identity_attributes c) = [ServiceNameKey, ServiceVersionKey, ServiceInstanceIDKey]
   \<and> filter Valid (identity_attributes c) = identity_attributes c
   \<and> (resource_contract sdk \<and> Config_resource sdk c ctx = (r, None) \<longrightarrow>
        (ServiceNameKey, STRING (ServiceName c)) \<in> set (Attributes r)
        \<and> (ServiceVersionKey, STRING (ServiceVersion c)) \<in> set (Attributes r)
        \<and> (ServiceInstanceIDKey, STRING (ServiceInstanceID c)) \<in> set (Attributes r))"
proof -
  have a: "map fst (identity_attributes c)
             = [ServiceNameKey, ServiceVersionKey, ServiceInstanceIDKey]"
    by (simp add: identity_attributes_def Key_String_def)
  have b: "filter Valid (identity_attributes c) = identity_attributes c"
    by (simp add: identity_attributes_def Key_String_def Valid_def
        ServiceInstanceIDKey_def ServiceNameKey_def ServiceVersionKey_def)
  have c: "resource_contract sdk \<and> Config_resource sdk c ctx = (r, None) \<longrightarrow>
        (ServiceNameKey, STRING (ServiceName c)) \<in> set (Attributes r)
        \<and> (ServiceVersionKey, STRING (ServiceVersion c)) \<in> set (Attributes r)
        \<and> (ServiceInstanceIDKey, STRING (ServiceInstanceID c)) \<in> set (Attributes r)"
  proof
    assume h: "resource_contract sdk \<and> Config_resource sdk c ctx = (r, None)"
    with Config_resource_under_contract [of sdk c ctx]
    obtain x where "r = Some x"
      and "map_of (attrs x) ServiceInstanceIDKey = Some (STRING (ServiceInstanceID c))"
      and "map_of (attrs x) ServiceNameKey = Some (STRING (ServiceName c))"
      and "map_of (attrs x) ServiceVersionKey = Some (STRING (ServiceVersion c))"
      by auto
    then show "(ServiceNameKey, STRING (ServiceName c)) \<in> set (Attributes r)
        \<and> (ServiceVersionKey, STRING (ServiceVersion c)) \<in> set (Attributes r)
        \<and> (ServiceInstanceIDKey, STRING (ServiceInstanceID c)) \<in> set (Attributes r)"
      by (simp add: Attributes_def map_of_SomeD)
  qed
  from a b c show ?thesis by blast
qed


theorem Config_resource_keeps_empty_fields_witness:
  "\<exists>r. Config_resource (sim_SDK empty_resource) (NewENVConfig Map.empty) TODO = (Some r, None)
      \<and> (''service.name'', STRING []) \<in> set (attrs r)
      \<and> (''service.version'', STRING []) \<in> set (attrs r)
      \<and> (''service.instance.id'', STRING []) \<in> set (attrs r)"
proof -
  have c: "ServiceInstanceID (NewENVConfig Map.empty) = []"
    "ServiceName (NewENVConfig Map.empty) = []"
    "ServiceVersion (NewENVConfig Map.empty) = []"
    by (simp_all add: NewENVConfig_def Getenv_def)
  from Config_resource_keeps_empty_fields
    [where sdk = "sim_SDK empty_resource" and c = "NewENVConfig Map.empty" and ctx = TODO]
    sim_SDK_contract [OF key_sorted_empty] sim_empty_config_resource
  show ?thesis
    by (simp add: c Attributes_def ServiceInstanceIDKey_def ServiceNameKey_def
        ServiceVersionKey_def)
qed


section \<open>The shape of a pipeline's result\<close>

lemma sim_stdouttrace_New_adapter: "sim_stdouttrace_New opts = (exp, None) \<Longrightarrow> exp \<noteq> None"
  by (induction opts rule: sim_stdouttrace_New.induct) auto

lemma sim_adapter_convention: "adapter_convention (sim_SDK d)"
  by (auto simp add: adapter_convention_def sim_SDK_def dest: sim_stdouttrace_New_adapter)

lemma sim_test_config_resource:
  "Config_resource (sim_SDK empty_resource) test_config TODO
     = (Some \<lparr> attrs = [(''service.instance.id'', STRING ''sampleServiceID''),
                         (''service.name'', STRING ''sampleServiceName''),
                         (''service.version'', STRING ''v1.0.0.0'')],
                schemaURL = ''https://opentelemetry.io/schemas/1.4.0'' \<rparr>, None)"
  by (simp add: sim_resource_defs empty_resource_def test_config_def NewENVConfig_def
      Getenv_def setEnv_def)

lemma Config_resource_descriptor:
  assumes "resource_contract sdk" and "snd (Config_resource sdk c ctx) = None"
  shows "fst (Config_resource sdk c ctx) \<noteq> None"
  using Config_resource_under_contract [OF assms(1), of c ctx] assms(2) by auto

text \<open>
  Claim C4. For the output kinds \<open>IO\<close> and \<open>GRPC\<close> and every configuration, the
  factory gives an exporter whose \<open>ExportPipeline\<close> returns one of two shapes, whatever
  the SDK does, decided by the error of the adapter constructor of that kind.
  \<^item> The constructor returned a nil error: the handle is the provider assembled from a
    batcher over the adapter the constructor returned (for \<open>GRPC\<close> with the fixed batch
    options and the always-sample sampler) and from the resource that
    \<open>Config.resource\<close> returned; the error is nil; and that same provider is installed.
    The adapter is not nil where the SDK keeps the Go convention on its constructors,
    and the resource is not nil where the SDK keeps its contract on resources and
    \<open>Config.resource\<close> returned no error.
  \<^item> The constructor returned an error: the handle is nil, the state is untouched, and
    the error returned wraps the constructor's error as its cause, its message being
    the prefix of that kind followed by the message of the cause.
  A handle together with an error, and neither of the two, are not among the shapes.
\<close>

theorem ExportPipeline_handle_xor_error:
  "outputType = IO \<or> outputType = GRPC \<Longrightarrow>
   \<exists>e. NewExporter outputType (Some c) = Some e
     \<and> ((\<exists>exp tp.
            (if outputType = IO then stdouttrace_New sdk [WithWriter (Writer c)]
             else otlptrace_New sdk ctx (NewClient (clientOpts c))) = (exp, None)
            \<and> tp = NewTracerProvider
                 (if outputType = IO
                  then [WithBatcher exp [],
                        WithResource (fst (Config_resource sdk c ctx))]
                  else [WithBatcher exp
                          [WithBatchTimeout 5000000000, WithExportTimeout 5000000000,
                           WithMaxQueueSize 10000, WithMaxExportBatchSize 100000],
                        WithSampler AlwaysSample,
                        WithResource (fst (Config_resource sdk c ctx))])
            \<and> ExportPipeline sdk e ctx w = Return ((Some tp, None), SetTracerProvider tp w)
            \<and> (adapter_convention sdk \<longrightarrow> exp \<noteq> None)
            \<and> (resource_contract sdk \<and> snd (Config_resource sdk c ctx) = None \<longrightarrow>
                 fst (Config_resource sdk c ctx) \<noteq> None))
        \<or> (\<exists>exp err cause.
              (if outputType = IO then stdouttrace_New sdk [WithWriter (Writer c)]
               else otlptrace_New sdk ctx (NewClient (clientOpts c))) = (exp, Some cause)
              \<and> ExportPipeline sdk e ctx w = Return ((None, Some err), w)
              \<and> Unwrap err = Some cause
              \<and> Error err
                  = (if outputType = IO then ''could not create exporter: ''
                     else ''creating OTLP trace exporter: '') @ Error cause))"
proof (erule disjE)
  assume k: "outputType = IO"
  obtain exp err where a: "stdouttrace_New sdk [WithWriter (Writer c)] = (exp, err)"
    by (cases "stdouttrace_New sdk [WithWriter (Writer c)]")
  show ?thesis
  proof (cases err)
    case None
    have "adapter_convention sdk \<longrightarrow> exp \<noteq> None"
      using a None unfolding adapter_convention_def by blast
    with a k None show ?thesis
      using io_returns [of sdk c exp ctx w] Config_resource_descriptor [of sdk c ctx]
      by (simp add: NewExporter_def)
  next
    case (Some e)
    with a k show ?thesis
      using io_fails [of sdk c exp e ctx w] by (simp add: NewExporter_def Errorf_w_def)
  qed
next
  assume k: "outputType = GRPC"
  then have n: "outputType \<noteq> IO"
    by (simp add: IO_def GRPC_def)
  obtain exp err where a: "otlptrace_New sdk ctx (NewClient (clientOpts c)) = (exp, err)"
    by (cases "otlptrace_New sdk ctx (NewClient (clientOpts c))")
  show ?thesis
  proof (cases err)
    case None
    have "adapter_convention sdk \<longrightarrow> exp \<noteq> None"
      using a None unfolding adapter_convention_def by blast
    with a k n None show ?thesis
      using grpc_returns [of sdk ctx c exp w] Config_resource_descriptor [of sdk c ctx]
      by (simp add: NewExporter_def)
  next
    case (Some e)
    with a k n show ?thesis
      using grpc_fails [of sdk ctx c exp e w] by (simp add: NewExporter_def Errorf_w_def)
  qed
qed

theorem ExportPipeline_handle_xor_error_witness:
  "ExportPipeline no_stdout_SDK (ioOutput (Some test_config)) TODO w0
     = Return ((None, Some (wrapError ''could not create exporter: unusable sink''
                              (errorString ''unusable sink''))), w0)
   \<and> (\<exists>a r. ExportPipeline (sim_SDK empty_resource) (grpcOutput (Some test_config)) TODO w0
        = Return ((Some (NewTracerProvider
                     [WithBatcher (Some a)
                        [WithBatchTimeout 5000000000, WithExportTimeout 5000000000,
                         WithMaxQueueSize 10000, WithMaxExportBatchSize 100000],
                      WithSampler AlwaysSample,
                      WithResource (Some r)]), None),
                  \<lparr> globalTracerProvider = Some (NewTracerProvider
                     [WithBatcher (Some a)
                        [WithBatchTimeout 5000000000, WithExportTimeout 5000000000,
                         WithMaxQueueSize 10000, WithMaxExportBatchSize 100000],
                      WithSampler AlwaysSample,
                      WithResource (Some r)]) \<rparr>))"
proof -
  have io: "IO = IO \<or> IO = GRPC" and grpc: "GRPC = IO \<or> GRPC = GRPC"
    by simp_all
  have ne: "GRPC \<noteq> IO"
    by (simp add: IO_def GRPC_def)
  from ExportPipeline_handle_xor_error [OF io, of test_config no_stdout_SDK TODO w0]
  obtain err where
    "ExportPipeline no_stdout_SDK (ioOutput (Some test_config)) TODO w0
       = Return ((None, Some err), w0)"
    and "Unwrap err = Some (errorString ''unusable sink'')"
    and "Error err = ''could not create exporter: unusable sink''"
    by (auto simp add: NewExporter_def no_stdout_New)
  then have a: "ExportPipeline no_stdout_SDK (ioOutput (Some test_config)) TODO w0
     = Return ((None, Some (wrapError ''could not create exporter: unusable sink''
                              (errorString ''unusable sink''))), w0)"
    by (cases err) simp_all
  have s: "snd (Config_resource (sim_SDK empty_resource) test_config TODO) = None"
    by (simp add: sim_test_config_resource)
  from ExportPipeline_handle_xor_error
    [OF grpc, of test_config "sim_SDK empty_resource" TODO w0]
    sim_adapter_convention [of empty_resource] sim_SDK_contract [OF key_sorted_empty] s
  have b: "\<exists>a r. ExportPipeline (sim_SDK empty_resource) (grpcOutput (Some test_config)) TODO w0
        = Return ((Some (NewTracerProvider
                     [WithBatcher (Some a)
                        [WithBatchTimeout 5000000000, WithExportTimeout 5000000000,
                         WithMaxQueueSize 10000, WithMaxExportBatchSize 100000],
                      WithSampler AlwaysSample,
                      WithResource (Some r)]), None),
                  \<lparr> globalTracerProvider = Some (NewTracerProvider
                     [WithBatcher (Some a)
                        [WithBatchTimeout 5000000000, WithExportTimeout 5000000000,
                         WithMaxQueueSize 10000, WithMaxExportBatchSize 100000],
                      WithSampler AlwaysSample,
                      WithResource (Some r)]) \<rparr>)"
    by (auto simp add: NewExporter_def ne sim_otlptrace_New SetTracerProvider_def w0_def)
  from a b show ?thesis by blast
qed

end
